theory Spec2Isabelle
  imports Complex_Main "HOL-Library.Multiset"
begin

section \<open>Numbers\<close>

text \<open>
  A TypeScript \<^verbatim>\<open>number\<close>. The finite values are read as exact reals: the rounding of
  binary doubles and overflow to infinity are outside this model. What is kept is the
  part of the arithmetic that replaces an exception: a division by zero gives
  \<^verbatim>\<open>Infinity\<close>, \<^verbatim>\<open>-Infinity\<close> or \<^verbatim>\<open>NaN\<close>, and these propagate. A zero is read as
  \<^verbatim>\<open>+0\<close>, which is what a value parsed from a NUMERIC column is; the sign of a zero only
  matters in a divisor, and every divisor of the calculation is a settings field.
\<close>

datatype number = Fin real | PInf | NInf | NaN

instantiation number :: "{plus, times, inverse}"
begin

fun plus_number :: "number \<Rightarrow> number \<Rightarrow> number" where
  "plus_number NaN y = NaN"
| "plus_number x NaN = NaN"
| "plus_number (Fin a) (Fin b) = Fin (a + b)"
| "plus_number (Fin a) PInf = PInf"
| "plus_number (Fin a) NInf = NInf"
| "plus_number PInf (Fin b) = PInf"
| "plus_number NInf (Fin b) = NInf"
| "plus_number PInf PInf = PInf"
| "plus_number NInf NInf = NInf"
| "plus_number PInf NInf = NaN"
| "plus_number NInf PInf = NaN"

fun times_number :: "number \<Rightarrow> number \<Rightarrow> number" where
  "times_number NaN y = NaN"
| "times_number x NaN = NaN"
| "times_number (Fin a) (Fin b) = Fin (a * b)"
| "times_number (Fin a) PInf = (if a = 0 then NaN else if 0 < a then PInf else NInf)"
| "times_number (Fin a) NInf = (if a = 0 then NaN else if 0 < a then NInf else PInf)"
| "times_number PInf (Fin b) = (if b = 0 then NaN else if 0 < b then PInf else NInf)"
| "times_number NInf (Fin b) = (if b = 0 then NaN else if 0 < b then NInf else PInf)"
| "times_number PInf PInf = PInf"
| "times_number NInf NInf = PInf"
| "times_number PInf NInf = NInf"
| "times_number NInf PInf = NInf"

fun divide_number :: "number \<Rightarrow> number \<Rightarrow> number" where
  "divide_number NaN y = NaN"
| "divide_number x NaN = NaN"
| "divide_number (Fin a) (Fin b) =
     (if b = 0 then (if a = 0 then NaN else if 0 < a then PInf else NInf)
      else Fin (a / b))"
| "divide_number (Fin a) PInf = Fin 0"
| "divide_number (Fin a) NInf = Fin 0"
| "divide_number PInf (Fin b) = (if 0 \<le> b then PInf else NInf)"
| "divide_number NInf (Fin b) = (if 0 \<le> b then NInf else PInf)"
| "divide_number PInf PInf = NaN"
| "divide_number NInf NInf = NaN"
| "divide_number PInf NInf = NaN"
| "divide_number NInf PInf = NaN"

definition inverse_number :: "number \<Rightarrow> number" where
  "inverse_number x = divide (Fin 1) x"

instance ..

end

text \<open>\<^verbatim>\<open>Math.ceil\<close>: the least integer not below a finite number; the other values are kept.\<close>

fun Math_ceil :: "number \<Rightarrow> number" where
  "Math_ceil (Fin x) = Fin (of_int \<lceil>x\<rceil>)"
| "Math_ceil PInf = PInf"
| "Math_ceil NInf = NInf"
| "Math_ceil NaN = NaN"


section \<open>Data model\<close>

type_synonym uuid = string
type_synonym timestamp = int

text \<open>Rows of the tables \<^verbatim>\<open>devices\<close> and \<^verbatim>\<open>global_settings\<close>; a NUMERIC column holds an
  exact real.\<close>

record devices_row =
  d_id :: uuid
  d_category_id :: uuid
  d_model_name :: string
  factory_price_eur :: real
  d_length :: real
  d_weight :: real
  d_is_active :: bool

record global_settings_row =
  s_id :: uuid
  discount_multiplier :: real
  freight_rate_per_length_eur :: real
  customs_numerator :: real
  customs_denominator :: real
  warranty_rate :: real
  internal_commission_factor :: real
  company_cost_factor :: real
  profit_factor :: real
  s_is_active :: bool
  s_created_at :: timestamp

text \<open>The TypeScript objects \<^verbatim>\<open>Device\<close>, \<^verbatim>\<open>GlobalSettings\<close> and \<^verbatim>\<open>PriceBreakdown\<close>.\<close>

record Device =
  dev_id :: uuid
  modelName :: string
  categoryId :: uuid
  dev_isActive :: bool
  factoryPriceEUR :: number
  dev_length :: number
  weight :: number

record GlobalSettings =
  gs_id :: uuid
  gs_isActive :: bool
  discountMultiplier :: number
  freightRatePerLengthEUR :: number
  customsNumerator :: number
  customsDenominator :: number
  warrantyRate :: number
  internalCommissionFactor :: number
  companyCostFactor :: number
  profitFactor :: number

record Inputs =
  P :: number
  L :: number
  W :: number

record Params =
  D :: number
  F :: number
  CN :: number
  CD :: number
  WR :: number
  COM :: number
  OFF :: number
  PF :: number

record Steps =
  companyPrice :: number
  shipment :: number
  custom :: number
  warranty :: number
  subtotal :: number
  commission :: number
  office :: number
  sellPrice :: number

record PriceBreakdown =
  inputs :: Inputs
  params :: Params
  steps :: Steps

section \<open>The price calculation (supabaseBackend.ts)\<close>

definition calculateBreakdown :: "Device \<Rightarrow> GlobalSettings \<Rightarrow> PriceBreakdown" where
  "calculateBreakdown device settings =
     (let S = settings;
          P = factoryPriceEUR device;
          L = dev_length device;
          W = weight device;
          companyPrice = P * discountMultiplier S;
          shipment = L * freightRatePerLengthEUR S;
          custom = W * (customsNumerator S / customsDenominator S);
          warranty = companyPrice * warrantyRate S;
          subtotal = companyPrice + shipment + custom + warranty;
          commission = subtotal / internalCommissionFactor S;
          office = commission / companyCostFactor S;
          sellPrice = Math_ceil (office / profitFactor S)
      in \<lparr>inputs = \<lparr>P = P, L = L, W = W\<rparr>,
          params = \<lparr>D = discountMultiplier S, F = freightRatePerLengthEUR S,
                    CN = customsNumerator S, CD = customsDenominator S,
                    WR = warrantyRate S, COM = internalCommissionFactor S,
                    OFF = companyCostFactor S, PF = profitFactor S\<rparr>,
          steps = \<lparr>companyPrice = companyPrice, shipment = shipment, custom = custom,
                   warranty = warranty, subtotal = subtotal, commission = commission,
                   office = office, sellPrice = sellPrice\<rparr>\<rparr>)"

definition calculatePriceInternal :: "Device \<Rightarrow> GlobalSettings \<Rightarrow> number" where
  "calculatePriceInternal device settings = sellPrice (steps (calculateBreakdown device settings))"

text \<open>The objects \<^verbatim>\<open>requestPrice\<close> and \<^verbatim>\<open>getDeviceBreakdown\<close> build from the rows they
  fetched, field by field; a JSON number parses to a finite \<^verbatim>\<open>number\<close>.\<close>

definition toDevice :: "devices_row \<Rightarrow> Device" where
  "toDevice device =
     \<lparr>dev_id = d_id device, modelName = d_model_name device,
      categoryId = d_category_id device, dev_isActive = d_is_active device,
      factoryPriceEUR = Fin (factory_price_eur device),
      dev_length = Fin (d_length device), weight = Fin (d_weight device)\<rparr>"

definition toGlobalSettings :: "global_settings_row \<Rightarrow> GlobalSettings" where
  "toGlobalSettings settings =
     \<lparr>gs_id = s_id settings, gs_isActive = s_is_active settings,
      discountMultiplier = Fin (discount_multiplier settings),
      freightRatePerLengthEUR = Fin (freight_rate_per_length_eur settings),
      customsNumerator = Fin (customs_numerator settings),
      customsDenominator = Fin (customs_denominator settings),
      warrantyRate = Fin (warranty_rate settings),
      internalCommissionFactor = Fin (internal_commission_factor settings),
      companyCostFactor = Fin (company_cost_factor settings),
      profitFactor = Fin (profit_factor settings)\<rparr>"

section \<open>The store\<close>

datatype status = pending | approved | rejected

record categories_row =
  c_id :: uuid
  c_name :: string
  c_is_active :: bool

record projects_row =
  p_id :: uuid
  p_user_id :: uuid
  p_name :: string

text \<open>A row of \<^verbatim>\<open>inquiry_logs\<close> in the schema the TypeScript backend writes to: every
  snapshot column is NOT NULL.\<close>

record inquiry_logs_row =
  l_id :: uuid
  l_user_id :: uuid
  l_device_id :: uuid
  l_project_id :: uuid
  category_name_snapshot :: string
  model_name_snapshot :: string
  sell_price_eur_snapshot :: real
  l_status :: status
  admin_response_time :: "timestamp option"
  l_created_at :: timestamp
  l_updated_at :: timestamp

text \<open>A row of \<^verbatim>\<open>public.inquiry_logs\<close> in the schema of the SQL functions: it has a project
  name snapshot, and its snapshot columns are nullable.\<close>

record rpc_inquiry_logs_row =
  r_id :: uuid
  r_user_id :: uuid
  r_device_id :: uuid
  r_project_id :: uuid
  r_project_name_snapshot :: "string option"
  r_category_name_snapshot :: "string option"
  r_model_name_snapshot :: "string option"
  r_sell_price_eur_snapshot :: real
  r_status :: status
  r_admin_response_time :: "timestamp option"
  r_created_at :: timestamp

record 'log database =
  devices :: "devices_row list"
  categories :: "categories_row list"
  global_settings :: "global_settings_row list"
  projects :: "projects_row list"
  inquiry_logs :: "'log list"

type_synonym db = "inquiry_logs_row database"
type_synonym rpc_db = "rpc_inquiry_logs_row database"

text \<open>What a call takes from outside the tables: the id and the time the store gives a new
  row, the caller's identity (\<^verbatim>\<open>auth.uid()\<close>), and which tables the store fails to read or
  to write during the call. Row-level security and the foreign keys into \<^verbatim>\<open>auth.users\<close> and
  \<^verbatim>\<open>profiles\<close> are not modelled.\<close>

datatype table = Devices | Categories | GlobalSettingsT | Projects | InquiryLogs

record env =
  gen_random_uuid :: uuid
  now :: timestamp
  auth_uid :: uuid
  read_fails :: "table \<Rightarrow> bool"
  write_fails :: "table \<Rightarrow> bool"

datatype store_error = Store_unavailable | Multiple_rows | Constraint_violation

record 'a response =
  data :: "'a option"
  error :: "store_error option"

text \<open>\<^verbatim>\<open>await supabase.from(t).select('*')...\<close> on the rows the filters keep.\<close>

definition select_rows :: "env \<Rightarrow> table \<Rightarrow> 'a list \<Rightarrow> 'a list response" where
  "select_rows e t rows =
     (if read_fails e t then \<lparr>data = None, error = Some Store_unavailable\<rparr>
      else \<lparr>data = Some rows, error = None\<rparr>)"

text \<open>\<^verbatim>\<open>.maybeSingle()\<close>: no row is \<^verbatim>\<open>null\<close> without an error, one row is that row, several
  rows are \<^verbatim>\<open>null\<close> with an error.\<close>

definition maybeSingle :: "'a list response \<Rightarrow> 'a response" where
  "maybeSingle r =
     (case data r of
        None \<Rightarrow> \<lparr>data = None, error = error r\<rparr>
      | Some [] \<Rightarrow> \<lparr>data = None, error = None\<rparr>
      | Some [x] \<Rightarrow> \<lparr>data = Some x, error = None\<rparr>
      | Some (x # y # zs) \<Rightarrow> \<lparr>data = None, error = Some Multiple_rows\<rparr>)"

text \<open>\<^verbatim>\<open>ORDER BY key DESC\<close>. The order of rows with equal keys is not fixed by the store; here
  they keep their table order.\<close>

definition order_desc :: "('a \<Rightarrow> int) \<Rightarrow> 'a list \<Rightarrow> 'a list" where
  "order_desc key rows = sort_key (\<lambda>r. - key r) rows"

datatype thrown = Error string

text \<open>The fields \<^verbatim>\<open>deviceId\<close> and \<^verbatim>\<open>projectId\<close> of the DTO carry a prefix here: the plain
  names are the parameters of the operations.\<close>

record RequestStatusDTO =
  requestId :: uuid
  dto_deviceId :: uuid
  dto_projectId :: uuid
  status :: status
  sellPriceEUR :: "number option"
  timestamp :: timestamp

section \<open>The operations of the TypeScript backend (supabaseBackend.ts)\<close>

text \<open>The row filters of the queries: \<^verbatim>\<open>.eq('id', deviceId)\<close> on \<^verbatim>\<open>devices\<close>,
  \<^verbatim>\<open>.eq('is_active', true)\<close> on \<^verbatim>\<open>global_settings\<close>, and the four \<^verbatim>\<open>.eq\<close> of the
  existing-log query of \<^verbatim>\<open>requestPrice\<close>.\<close>

definition devices_with_id :: "'log database \<Rightarrow> uuid \<Rightarrow> devices_row list" where
  "devices_with_id db deviceId = filter (\<lambda>d. d_id d = deviceId) (devices db)"

definition active_settings :: "'log database \<Rightarrow> global_settings_row list" where
  "active_settings db = filter s_is_active (global_settings db)"

definition pending_logs :: "db \<Rightarrow> uuid \<Rightarrow> uuid \<Rightarrow> uuid \<Rightarrow> inquiry_logs_row list" where
  "pending_logs db userId deviceId projectId =
     filter (\<lambda>l. l_user_id l = userId \<and> l_device_id l = deviceId
                  \<and> l_project_id l = projectId \<and> l_status l = pending)
       (inquiry_logs db)"

text \<open>\<^verbatim>\<open>.insert({...}).select()\<close> on \<^verbatim>\<open>inquiry_logs\<close>. The store fills in the id, the
  status (\<^verbatim>\<open>DEFAULT 'pending'\<close>) and the times. A price that is not finite is sent as JSON
  \<^verbatim>\<open>null\<close>, which the NOT NULL column refuses; the primary key and the references to
  \<^verbatim>\<open>devices\<close> and \<^verbatim>\<open>projects\<close> are checked.\<close>

definition insert_inquiry_log ::
  "env \<Rightarrow> db \<Rightarrow> uuid \<Rightarrow> uuid \<Rightarrow> uuid \<Rightarrow> string \<Rightarrow> string \<Rightarrow> number
     \<Rightarrow> inquiry_logs_row list response \<times> db" where
  "insert_inquiry_log e db user_id device_id project_id category_name model_name price =
     (if write_fails e InquiryLogs then (\<lparr>data = None, error = Some Store_unavailable\<rparr>, db)
      else case price of
        Fin x \<Rightarrow>
          if gen_random_uuid e \<in> set (map l_id (inquiry_logs db))
             \<or> device_id \<notin> set (map d_id (devices db))
             \<or> project_id \<notin> set (map p_id (projects db))
          then (\<lparr>data = None, error = Some Constraint_violation\<rparr>, db)
          else
            let row = \<lparr>l_id = gen_random_uuid e, l_user_id = user_id, l_device_id = device_id,
                       l_project_id = project_id, category_name_snapshot = category_name,
                       model_name_snapshot = model_name, sell_price_eur_snapshot = x,
                       l_status = pending, admin_response_time = None,
                       l_created_at = now e, l_updated_at = now e\<rparr>
            in (\<lparr>data = Some [row], error = None\<rparr>,
                db\<lparr>inquiry_logs := inquiry_logs db @ [row]\<rparr>)
      | _ \<Rightarrow> (\<lparr>data = None, error = Some Constraint_violation\<rparr>, db))"

definition requestPrice ::
  "env \<Rightarrow> db \<Rightarrow> uuid \<Rightarrow> uuid \<Rightarrow> uuid \<Rightarrow> (thrown + RequestStatusDTO) \<times> db" where
  "requestPrice e db userId deviceId projectId =
     (let r = maybeSingle (select_rows e Devices (devices_with_id db deviceId));
          deviceError = error r
      in case (if deviceError \<noteq> None then None else data r) of
        None \<Rightarrow> (Inl (Error ''Device not found''), db)
      | Some device \<Rightarrow>
         (case data (maybeSingle (select_rows e InquiryLogs
                  (pending_logs db userId deviceId projectId))) of
            Some existingLog \<Rightarrow>
              (Inr \<lparr>requestId = l_id existingLog, dto_deviceId = l_device_id existingLog,
                    dto_projectId = l_project_id existingLog, status = l_status existingLog,
                    sellPriceEUR = None, timestamp = l_created_at existingLog\<rparr>, db)
          | None \<Rightarrow>
             (case data (maybeSingle (select_rows e GlobalSettingsT (active_settings db))) of
                None \<Rightarrow> (Inl (Error ''Settings not found''), db)
              | Some settings \<Rightarrow>
                 (let category = data (maybeSingle (select_rows e Categories
                          (filter (\<lambda>c. c_id c = d_category_id device) (categories db))));
                      priceEUR = calculatePriceInternal (toDevice device) (toGlobalSettings settings);
                      ins = insert_inquiry_log e db userId deviceId projectId
                          (case category of
                             None \<Rightarrow> ''Unknown''
                           | Some c \<Rightarrow> if c_name c = [] then ''Unknown'' else c_name c)
                          (d_model_name device) priceEUR
                  in case (if error (fst ins) \<noteq> None then None else data (fst ins)) of
                       Some (inquiry0 # rest) \<Rightarrow>
                         (Inr \<lparr>requestId = l_id inquiry0, dto_deviceId = l_device_id inquiry0,
                               dto_projectId = l_project_id inquiry0, status = pending,
                               sellPriceEUR = None, timestamp = l_created_at inquiry0\<rparr>,
                          snd ins)
                     | _ \<Rightarrow> (Inl (Error ''Failed to create inquiry log''), snd ins)))))"

definition getUserRequests :: "env \<Rightarrow> db \<Rightarrow> uuid \<Rightarrow> RequestStatusDTO list" where
  "getUserRequests e db userId =
     (let r = select_rows e InquiryLogs
                (order_desc l_created_at (filter (\<lambda>l. l_user_id l = userId) (inquiry_logs db)))
      in if error r \<noteq> None then []
         else map (\<lambda>log. \<lparr>requestId = l_id log, dto_deviceId = l_device_id log,
                           dto_projectId = l_project_id log, status = l_status log,
                           sellPriceEUR = (if l_status log = approved
                                           then Some (Fin (sell_price_eur_snapshot log))
                                           else None),
                           timestamp = l_created_at log\<rparr>)
                (case data r of None \<Rightarrow> [] | Some rows \<Rightarrow> rows))"

definition getDeviceBreakdown :: "env \<Rightarrow> db \<Rightarrow> uuid \<Rightarrow> thrown + PriceBreakdown" where
  "getDeviceBreakdown e db deviceId =
     (let device = data (maybeSingle (select_rows e Devices (devices_with_id db deviceId)));
          settings = data (maybeSingle (select_rows e GlobalSettingsT (active_settings db)))
      in case (device, settings) of
           (Some d, Some s) \<Rightarrow> Inr (calculateBreakdown (toDevice d) (toGlobalSettings s))
         | _ \<Rightarrow> Inl (Error ''Device or settings not found''))"

text \<open>The parameter type \<^verbatim>\<open>'approved' | 'rejected'\<close> of \<^verbatim>\<open>setRequestStatus\<close>.\<close>

datatype new_status = to_approved | to_rejected

fun status_of :: "new_status \<Rightarrow> status" where
  "status_of to_approved = approved"
| "status_of to_rejected = rejected"

text \<open>\<^verbatim>\<open>.update({status, admin_response_time}).eq('id', logId)\<close>: every row with that id gets
  the two columns; a refused update changes nothing and is thrown (the message of the
  store, which the source appends, is left out).\<close>

definition setRequestStatus :: "env \<Rightarrow> db \<Rightarrow> uuid \<Rightarrow> new_status \<Rightarrow> (thrown + unit) \<times> db" where
  "setRequestStatus e db logId st =
     (if write_fails e InquiryLogs
      then (Inl (Error ''Failed to update request status''), db)
      else (Inr (),
            db\<lparr>inquiry_logs :=
                 map (\<lambda>l. if l_id l = logId
                           then l\<lparr>l_status := status_of st, admin_response_time := Some (now e)\<rparr>
                           else l)
                   (inquiry_logs db)\<rparr>))"

section \<open>The SQL functions (001_create_initial_schema.sql)\<close>

datatype sql_exception =
  Raise string | division_by_zero | foreign_key_violation | unique_violation

text \<open>Division of NUMERIC values: exact here (the scale a NUMERIC quotient is rounded to is
  outside the model), and an exception on a zero divisor.\<close>

definition numeric_div :: "real \<Rightarrow> real \<Rightarrow> sql_exception + real" where
  "numeric_div a b = (if b = 0 then Inl division_by_zero else Inr (a / b))"

record jsonb_breakdown =
  j_P :: real
  j_L :: real
  j_W :: real
  j_D :: real
  j_F :: real
  j_WR :: real
  j_PF :: real
  j_companyPrice :: real
  j_shipment :: real
  j_custom :: real
  j_warranty :: real
  j_subtotal :: real
  j_sellPrice :: real

record price_logic_row =
  sell_price :: real
  breakdown :: jsonb_breakdown

text \<open>The assignments of \<^verbatim>\<open>calculate_price_logic\<close>, steps 1 to 8 and the returned row, on
  the device \<^verbatim>\<open>d\<close> and the settings \<^verbatim>\<open>s\<close> it fetched.\<close>

definition calculate_price_logic_steps ::
  "devices_row \<Rightarrow> global_settings_row \<Rightarrow> sql_exception + price_logic_row" where
  "calculate_price_logic_steps d s =
     (let v_company_price = factory_price_eur d * discount_multiplier s;
          v_shipment = d_length d * freight_rate_per_length_eur s
      in case numeric_div (customs_numerator s) (customs_denominator s) of
        Inl ex \<Rightarrow> Inl ex
      | Inr q \<Rightarrow>
         (let v_custom = d_weight d * q;
              v_warranty = v_company_price * warranty_rate s;
              v_subtotal = v_company_price + v_shipment + v_custom + v_warranty
          in case numeric_div v_subtotal (internal_commission_factor s) of
            Inl ex \<Rightarrow> Inl ex
          | Inr v_commission \<Rightarrow>
             (case numeric_div v_commission (company_cost_factor s) of
                Inl ex \<Rightarrow> Inl ex
              | Inr v_office \<Rightarrow>
                 (case numeric_div v_office (profit_factor s) of
                    Inl ex \<Rightarrow> Inl ex
                  | Inr x \<Rightarrow>
                     (let v_final_price = of_int \<lceil>x\<rceil>
                      in Inr \<lparr>sell_price = v_final_price,
                              breakdown =
                                \<lparr>j_P = factory_price_eur d, j_L = d_length d, j_W = d_weight d,
                                 j_D = discount_multiplier s,
                                 j_F = freight_rate_per_length_eur s,
                                 j_WR = warranty_rate s, j_PF = profit_factor s,
                                 j_companyPrice = v_company_price, j_shipment = v_shipment,
                                 j_custom = v_custom, j_warranty = v_warranty,
                                 j_subtotal = v_subtotal,
                                 j_sellPrice = v_final_price\<rparr>\<rparr>)))))"

text \<open>\<^verbatim>\<open>WHERE is_active = true ORDER BY created_at DESC LIMIT 1\<close>.\<close>

definition latest_active_settings :: "'log database \<Rightarrow> global_settings_row option" where
  "latest_active_settings db =
     (case order_desc s_created_at (active_settings db) of
        [] \<Rightarrow> None
      | s # rest \<Rightarrow> Some s)"

definition calculate_price_logic ::
  "'log database \<Rightarrow> uuid \<Rightarrow> sql_exception + price_logic_row" where
  "calculate_price_logic db p_device_id =
     (case find (\<lambda>d. d_id d = p_device_id) (devices db) of
        None \<Rightarrow> Inl (Raise ''Device not found'')
      | Some d \<Rightarrow>
         (case latest_active_settings db of
            None \<Rightarrow> Inl (Raise ''No active settings found'')
          | Some s \<Rightarrow> calculate_price_logic_steps d s))"

record request_price_json =
  j_requestId :: uuid
  j_status :: status
  j_timestamp :: timestamp

definition request_price ::
  "env \<Rightarrow> rpc_db \<Rightarrow> uuid \<Rightarrow> uuid \<Rightarrow> (sql_exception + request_price_json) \<times> rpc_db" where
  "request_price e db p_device_id p_project_id =
     (let v_user_id = auth_uid e;
          v_project_name = map_option p_name (find (\<lambda>p. p_id p = p_project_id) (projects db));
          joined =
            (case find (\<lambda>d. d_id d = p_device_id) (devices db) of
               None \<Rightarrow> None
             | Some d \<Rightarrow>
                (case find (\<lambda>c. c_id c = d_category_id d) (categories db) of
                   None \<Rightarrow> None
                 | Some c \<Rightarrow> Some (d_model_name d, c_name c)));
          v_model_name = map_option fst joined;
          v_cat_name = map_option snd joined
      in case calculate_price_logic db p_device_id of
        Inl ex \<Rightarrow> (Inl ex, db)
      | Inr row \<Rightarrow>
         (let v_price = sell_price row;
              v_log_id = gen_random_uuid e
          in if p_project_id \<notin> set (map p_id (projects db)) then (Inl foreign_key_violation, db)
             else if v_log_id \<in> set (map r_id (inquiry_logs db)) then (Inl unique_violation, db)
             else (Inr \<lparr>j_requestId = v_log_id, j_status = pending, j_timestamp = now e\<rparr>,
                   db\<lparr>inquiry_logs := inquiry_logs db @
                        [\<lparr>r_id = v_log_id, r_user_id = v_user_id, r_device_id = p_device_id,
                          r_project_id = p_project_id,
                          r_project_name_snapshot = v_project_name,
                          r_category_name_snapshot = v_cat_name,
                          r_model_name_snapshot = v_model_name,
                          r_sell_price_eur_snapshot = v_price, r_status = pending,
                          r_admin_response_time = None, r_created_at = now e\<rparr>]\<rparr>)))"

section \<open>The calculation as the specification words it\<close>










section \<open>Example data\<close>

text \<open>Rows the migration seeds: two devices, the default settings.\<close>

definition seed_outdoor :: devices_row where
  "seed_outdoor =
     \<lparr>d_id = ''dev-479'', d_category_id = ''cat-479'', d_model_name = ''VRF-Outdoor-20HP'',
      factory_price_eur = 15000, d_length = 2.5, d_weight = 400, d_is_active = True\<rparr>"

definition seed_cassette :: devices_row where
  "seed_cassette =
     \<lparr>d_id = ''dev-480'', d_category_id = ''cat-479'', d_model_name = ''VRF-Indoor-Cassette'',
      factory_price_eur = 800, d_length = 0.8, d_weight = 30, d_is_active = True\<rparr>"

definition seed_settings :: global_settings_row where
  "seed_settings =
     \<lparr>s_id = ''set-999'', discount_multiplier = 0.38, freight_rate_per_length_eur = 1000,
      customs_numerator = 350000, customs_denominator = 150000, warranty_rate = 0.05,
      internal_commission_factor = 0.95, company_cost_factor = 0.95, profit_factor = 0.65,
      s_is_active = True, s_created_at = 100\<rparr>"

definition seed_db :: "'log database" where
  "seed_db =
     \<lparr>devices = [seed_outdoor, seed_cassette],
      categories = [\<lparr>c_id = ''cat-479'', c_name = ''VRF Systems'', c_is_active = True\<rparr>],
      global_settings = [seed_settings],
      projects = [\<lparr>p_id = ''prj-1'', p_user_id = ''usr-1'', p_name = ''Tower''\<rparr>],
      inquiry_logs = []\<rparr>"

definition env_ok :: env where
  "env_ok =
     \<lparr>gen_random_uuid = ''log-1'', now = 1000, auth_uid = ''usr-1'',
      read_fails = (\<lambda>t. False), write_fails = (\<lambda>t. False)\<rparr>"

text \<open>A pending request of user \<^verbatim>\<open>usr-1\<close> for the outdoor unit, and a store that holds it
  together with an approved request for the cassette.\<close>

definition example_log :: inquiry_logs_row where
  "example_log =
     \<lparr>l_id = ''log-0'', l_user_id = ''usr-1'', l_device_id = ''dev-479'', l_project_id = ''prj-1'',
      category_name_snapshot = ''VRF Systems'', model_name_snapshot = ''VRF-Outdoor-20HP'',
      sell_price_eur_snapshot = 16056, l_status = pending, admin_response_time = None,
      l_created_at = 500, l_updated_at = 500\<rparr>"

definition logged_db :: db where
  "logged_db = seed_db\<lparr>inquiry_logs :=
      [example_log,
       example_log\<lparr>l_id := ''log-7'', l_device_id := ''dev-480'',
         model_name_snapshot := ''VRF-Indoor-Cassette'', sell_price_eur_snapshot := 2028,
         l_status := approved, admin_response_time := Some 800,
         l_created_at := 700, l_updated_at := 700\<rparr>]\<rparr>"

text \<open>A store with two pending requests for one (user, device, project), which no
  constraint of the schema excludes.\<close>

definition duplicate_db :: db where
  "duplicate_db = seed_db\<lparr>inquiry_logs :=
      [example_log, example_log\<lparr>l_id := ''log-9'', l_created_at := 600, l_updated_at := 600\<rparr>]\<rparr>"

text \<open>A store with two active settings rows; the later one has profit factor 0.5.\<close>

definition two_active_db :: "'log database" where
  "two_active_db = seed_db\<lparr>global_settings :=
      [seed_settings,
       seed_settings\<lparr>s_id := ''set-2'', profit_factor := 0.5, s_created_at := 200\<rparr>]\<rparr>"

definition env_later :: env where
  "env_later = env_ok\<lparr>gen_random_uuid := ''log-2'', now := 2000\<rparr>"

definition env_down :: env where
  "env_down = env_ok\<lparr>read_fails := (\<lambda>t. t = InquiryLogs)\<rparr>"

section \<open>The price calculation: formula, worked example, invalid inputs\<close>




text \<open>
  Claim C2. The worked example: factoryPrice 15000, length 2.5, weight 400 under the
  default parameters (0.38, 1000, 350000 / 150000, 0.05, 0.95, 0.95, 0.65) gives
  companyPrice 5700, shipment 2500, custom 933.33..., warranty 285, subtotal 9418.33...,
  commission 9914.03..., office 10435.82..., and the sell price is the ceiling of
  16055.11..., which is 16056.
\<close>

theorem worked_example:
  "steps (calculateBreakdown (toDevice seed_outdoor) (toGlobalSettings seed_settings)) =
     \<lparr>companyPrice = Fin 5700, shipment = Fin 2500, custom = Fin (2800 / 3),
      warranty = Fin 285, subtotal = Fin (28255 / 3), commission = Fin (565100 / 57),
      office = Fin (11302000 / 1083), sellPrice = Fin 16056\<rparr>
   \<and> 933.33 < (2800 / 3 :: real) \<and> (2800 / 3 :: real) < 933.34
   \<and> 9418.33 < (28255 / 3 :: real) \<and> (28255 / 3 :: real) < 9418.34
   \<and> 9914.03 < (565100 / 57 :: real) \<and> (565100 / 57 :: real) < 9914.04
   \<and> 10435.82 < (11302000 / 1083 :: real) \<and> (11302000 / 1083 :: real) < 10435.83
   \<and> office (steps (calculateBreakdown (toDevice seed_outdoor) (toGlobalSettings seed_settings)))
         / profitFactor (toGlobalSettings seed_settings) = Fin (226040000 / 14079)
   \<and> 16055.11 < (226040000 / 14079 :: real) \<and> (226040000 / 14079 :: real) < 16055.12
   \<and> \<lceil>226040000 / 14079 :: real\<rceil> = 16056"
  by (simp add: calculateBreakdown_def toDevice_def toGlobalSettings_def Let_def
      seed_outdoor_def seed_settings_def)

subsection \<open>Non-finite numbers propagate\<close>










section \<open>The two copies of the calculation\<close>






section \<open>Approval: \<^verbatim>\<open>setRequestStatus\<close>\<close>

lemma setRequestStatus_accepted:
  assumes "\<not> write_fails e InquiryLogs"
  shows "fst (setRequestStatus e db logId st) = Inr ()"
    and "inquiry_logs (snd (setRequestStatus e db logId st)) =
          map (\<lambda>l. if l_id l = logId
                    then l\<lparr>l_status := status_of st, admin_response_time := Some (now e)\<rparr>
                    else l) (inquiry_logs db)"
  using assms by (simp_all add: setRequestStatus_def)

lemma setRequestStatus_refused:
  assumes "write_fails e InquiryLogs"
  shows "setRequestStatus e db logId st = (Inl (Error ''Failed to update request status''), db)"
  using assms by (simp add: setRequestStatus_def)

lemma setRequestStatus_sets:
  assumes w: "\<not> write_fails e InquiryLogs"
    and mem: "l' \<in> set (inquiry_logs (snd (setRequestStatus e db logId st)))"
    and id: "l_id l' = logId"
  shows "l_status l' = status_of st \<and> admin_response_time l' = Some (now e)"
proof -
  from mem obtain l where l': "l' = (if l_id l = logId
                    then l\<lparr>l_status := status_of st, admin_response_time := Some (now e)\<rparr>
                    else l)"
    unfolding setRequestStatus_accepted(2) [OF w] set_map by (rule imageE)
  show ?thesis
  proof (cases "l_id l = logId")
    case True
    with l' show ?thesis by simp
  next
    case False
    with l' id show ?thesis by simp
  qed
qed

text \<open>
  Claim C6, as the specification states it: a call of \<^verbatim>\<open>setRequestStatus\<close> on a log in a
  terminal state fails with InvalidStateTransition and leaves the log unchanged. It does
  not: after a pending log is approved, the call with \<^verbatim>\<open>rejected\<close> succeeds, the log is
  rejected and its response time is the time of the second call.
\<close>

theorem terminal_log_is_overwritten:
  "fst (setRequestStatus (env_ok\<lparr>now := 2000\<rparr>)
         (snd (setRequestStatus env_ok logged_db ''log-0'' to_approved)) ''log-0'' to_rejected)
     = Inr ()
   \<and> map l_status (inquiry_logs (snd (setRequestStatus env_ok logged_db ''log-0'' to_approved)))
     = [approved, approved]
   \<and> map l_status (inquiry_logs (snd (setRequestStatus (env_ok\<lparr>now := 2000\<rparr>)
         (snd (setRequestStatus env_ok logged_db ''log-0'' to_approved)) ''log-0'' to_rejected)))
     = [rejected, approved]
   \<and> map admin_response_time (inquiry_logs (snd (setRequestStatus (env_ok\<lparr>now := 2000\<rparr>)
         (snd (setRequestStatus env_ok logged_db ''log-0'' to_approved)) ''log-0'' to_rejected)))
     = [Some 2000, Some 800]"
  by (simp add: setRequestStatus_def env_ok_def logged_db_def example_log_def seed_db_def)

text \<open>
  Claim C6, amended. \<^verbatim>\<open>setRequestStatus\<close> does not look at the current status of the log.
  Whenever the store accepts the update, the call succeeds and every log with the given
  id gets the new status and the time of the call as its response time, whether it was
  pending, approved or rejected before. The call fails only when the store refuses the
  update, and then no log is changed.
\<close>

theorem setRequestStatus_overwrites:
  "(\<not> write_fails e InquiryLogs \<longrightarrow>
      fst (setRequestStatus e db logId st) = Inr ()
      \<and> inquiry_logs (snd (setRequestStatus e db logId st)) =
          map (\<lambda>l. if l_id l = logId
                    then l\<lparr>l_status := status_of st, admin_response_time := Some (now e)\<rparr>
                    else l) (inquiry_logs db)
      \<and> (\<forall>l' \<in> set (inquiry_logs (snd (setRequestStatus e db logId st))).
            l_id l' = logId \<longrightarrow>
            l_status l' = status_of st \<and> admin_response_time l' = Some (now e)))
   \<and> (write_fails e InquiryLogs \<longrightarrow>
      setRequestStatus e db logId st = (Inl (Error ''Failed to update request status''), db))"
  using setRequestStatus_accepted [of e db logId st] setRequestStatus_refused [of e db logId st]
    setRequestStatus_sets [of e _ db logId st]
  by blast

theorem setRequestStatus_overwrites_witness:
  "\<not> write_fails env_later InquiryLogs
   \<and> map l_status (inquiry_logs logged_db) = [pending, approved]
   \<and> fst (setRequestStatus env_later logged_db ''log-7'' to_rejected) = Inr ()
   \<and> map l_status (inquiry_logs (snd (setRequestStatus env_later logged_db ''log-7'' to_rejected)))
      = [pending, rejected]
   \<and> write_fails (env_ok\<lparr>write_fails := (\<lambda>t. True)\<rparr>) InquiryLogs
   \<and> setRequestStatus (env_ok\<lparr>write_fails := (\<lambda>t. True)\<rparr>) logged_db ''log-7'' to_rejected
      = (Inl (Error ''Failed to update request status''), logged_db)"
proof -
  have w: "\<not> write_fails env_later InquiryLogs"
    "write_fails (env_ok\<lparr>write_fails := (\<lambda>t. True)\<rparr>) InquiryLogs"
    by (simp_all add: env_later_def env_ok_def)
  have logs: "map l_status (inquiry_logs logged_db) = [pending, approved]"
    "map l_id (inquiry_logs logged_db) = [''log-0'', ''log-7'']"
    by (simp_all add: logged_db_def example_log_def)
  from setRequestStatus_overwrites [where e = env_later and db = logged_db
      and logId = "''log-7''" and st = to_rejected] w(1)
  have a: "fst (setRequestStatus env_later logged_db ''log-7'' to_rejected) = Inr ()"
    "inquiry_logs (snd (setRequestStatus env_later logged_db ''log-7'' to_rejected)) =
      map (\<lambda>l. if l_id l = ''log-7''
                then l\<lparr>l_status := status_of to_rejected, admin_response_time := Some (now env_later)\<rparr>
                else l) (inquiry_logs logged_db)"
    by blast+
  have a2: "map l_status (inquiry_logs (snd (setRequestStatus env_later logged_db ''log-7'' to_rejected)))
      = [pending, rejected]"
    unfolding a(2) by (simp add: logged_db_def example_log_def)
  from setRequestStatus_overwrites [where e = "env_ok\<lparr>write_fails := (\<lambda>t. True)\<rparr>"
      and db = logged_db and logId = "''log-7''" and st = to_rejected] w(2)
  have b: "setRequestStatus (env_ok\<lparr>write_fails := (\<lambda>t. True)\<rparr>) logged_db ''log-7'' to_rejected
      = (Inl (Error ''Failed to update request status''), logged_db)"
    by blast
  from w logs(1) a(1) a2 b show ?thesis by simp
qed

text \<open>
  Claim C9. A call of \<^verbatim>\<open>setRequestStatus\<close> changes nothing but the status and the admin
  response time of the logs with the given id: their user, device, project, category and
  model snapshots, price snapshot and creation time stay, every other log is left as it
  is, and so are the other tables.
\<close>

theorem setRequestStatus_frame:
  "devices (snd (setRequestStatus e db logId st)) = devices db
   \<and> categories (snd (setRequestStatus e db logId st)) = categories db
   \<and> global_settings (snd (setRequestStatus e db logId st)) = global_settings db
   \<and> projects (snd (setRequestStatus e db logId st)) = projects db
   \<and> list_all2
       (\<lambda>l l'. l_id l' = l_id l \<and> l_user_id l' = l_user_id l \<and> l_device_id l' = l_device_id l
          \<and> l_project_id l' = l_project_id l
          \<and> category_name_snapshot l' = category_name_snapshot l
          \<and> model_name_snapshot l' = model_name_snapshot l
          \<and> sell_price_eur_snapshot l' = sell_price_eur_snapshot l
          \<and> l_created_at l' = l_created_at l \<and> l_updated_at l' = l_updated_at l
          \<and> l' = l\<lparr>l_status := l_status l', admin_response_time := admin_response_time l'\<rparr>
          \<and> (l_id l \<noteq> logId \<longrightarrow> l' = l))
       (inquiry_logs db) (inquiry_logs (snd (setRequestStatus e db logId st)))"
  by (auto simp add: setRequestStatus_def list_all2_map2 list_all2_same)

theorem setRequestStatus_frame_witness:
  "map l_id (inquiry_logs logged_db) = [''log-0'', ''log-7'']
   \<and> inquiry_logs (snd (setRequestStatus env_later logged_db ''log-0'' to_approved))
      = [example_log\<lparr>l_status := approved, admin_response_time := Some 2000\<rparr>,
         inquiry_logs logged_db ! 1]"
proof -
  have ids: "map l_id (inquiry_logs logged_db) = [''log-0'', ''log-7'']"
    by (simp add: logged_db_def example_log_def)
  obtain l0 l1 where logs: "inquiry_logs logged_db = [l0, l1]" "l0 = example_log"
    by (simp add: logged_db_def)
  have id1: "l_id l1 \<noteq> ''log-0''" "l_id l0 = ''log-0''"
    using ids logs by simp_all
  let ?db' = "snd (setRequestStatus env_later logged_db ''log-0'' to_approved)"
  from setRequestStatus_frame [where e = env_later and db = logged_db
      and logId = "''log-0''" and st = to_approved]
  have fr: "list_all2
       (\<lambda>l l'. l' = l\<lparr>l_status := l_status l', admin_response_time := admin_response_time l'\<rparr>
          \<and> (l_id l \<noteq> ''log-0'' \<longrightarrow> l' = l))
       [l0, l1] (inquiry_logs ?db')"
    unfolding logs(1) by (elim conjE) (erule list_all2_mono, simp)
  then obtain l0' l1' where out: "inquiry_logs ?db' = [l0', l1']"
    and l0': "l0' = l0\<lparr>l_status := l_status l0', admin_response_time := admin_response_time l0'\<rparr>"
    and l1': "l1' = l1"
    using id1(1) by (auto simp add: list_all2_Cons1)
  have upd: "l_status l0' = approved" "admin_response_time l0' = Some 2000"
    using out id1 logs
    by (auto simp add: setRequestStatus_def env_later_def env_ok_def)
  from out l0' l1' upd logs ids show ?thesis
    by simp
qed

section \<open>Listing a user's requests: \<^verbatim>\<open>getUserRequests\<close>\<close>

lemma order_desc_sorted:
  "sorted_wrt (\<lambda>a b. key b \<le> key a) (order_desc key rows)"
proof -
  have "sorted (map (\<lambda>r. - key r) (sort_key (\<lambda>r. - key r) rows))"
    by (rule sorted_sort_key)
  then show ?thesis
    by (simp add: order_desc_def sorted_wrt_map)
qed

lemma mset_order_desc: "mset (order_desc key rows) = mset rows"
  by (simp add: order_desc_def)

text \<open>
  Claim C7. \<^verbatim>\<open>getUserRequests\<close> returns the user's logs newest first (descending creation
  time); an entry whose status is not approved has no sell price, so the price snapshot
  is exposed only for approved entries. When the store answers, the entries are exactly
  the user's logs, each with its snapshot price if and only if it is approved.
\<close>

theorem getUserRequests_newest_first:
  "sorted_wrt (\<lambda>a b. timestamp b \<le> timestamp a) (getUserRequests e db userId)
   \<and> (\<forall>dto \<in> set (getUserRequests e db userId).
         status dto \<noteq> approved \<longrightarrow> sellPriceEUR dto = None)
   \<and> (\<not> read_fails e InquiryLogs \<longrightarrow>
        mset (getUserRequests e db userId) =
          image_mset
            (\<lambda>l. \<lparr>requestId = l_id l, dto_deviceId = l_device_id l,
                   dto_projectId = l_project_id l, status = l_status l,
                   sellPriceEUR = (if l_status l = approved
                                   then Some (Fin (sell_price_eur_snapshot l)) else None),
                   timestamp = l_created_at l\<rparr>)
            (mset (filter (\<lambda>l. l_user_id l = userId) (inquiry_logs db))))"
proof (intro conjI impI)
  show "sorted_wrt (\<lambda>a b. timestamp b \<le> timestamp a) (getUserRequests e db userId)"
    by (simp add: getUserRequests_def select_rows_def Let_def sorted_wrt_map order_desc_sorted)
next
  show "\<forall>dto \<in> set (getUserRequests e db userId).
         status dto \<noteq> approved \<longrightarrow> sellPriceEUR dto = None"
    by (auto simp add: getUserRequests_def select_rows_def Let_def)
next
  assume "\<not> read_fails e InquiryLogs"
  then show "mset (getUserRequests e db userId) =
          image_mset
            (\<lambda>l. \<lparr>requestId = l_id l, dto_deviceId = l_device_id l,
                   dto_projectId = l_project_id l, status = l_status l,
                   sellPriceEUR = (if l_status l = approved
                                   then Some (Fin (sell_price_eur_snapshot l)) else None),
                   timestamp = l_created_at l\<rparr>)
            (mset (filter (\<lambda>l. l_user_id l = userId) (inquiry_logs db)))"
    by (simp add: getUserRequests_def select_rows_def Let_def mset_order_desc)
qed

theorem getUserRequests_newest_first_witness:
  "\<not> read_fails env_ok InquiryLogs
   \<and> getUserRequests env_ok logged_db ''usr-1'' =
       [\<lparr>requestId = ''log-7'', dto_deviceId = ''dev-480'', dto_projectId = ''prj-1'',
         status = approved, sellPriceEUR = Some (Fin 2028), timestamp = 700\<rparr>,
        \<lparr>requestId = ''log-0'', dto_deviceId = ''dev-479'', dto_projectId = ''prj-1'',
         status = pending, sellPriceEUR = None, timestamp = 500\<rparr>]"
  using getUserRequests_newest_first [where e = env_ok and db = logged_db and userId = "''usr-1''"]
  by (simp add: getUserRequests_def select_rows_def order_desc_def env_ok_def logged_db_def
      example_log_def seed_db_def)

text \<open>
  Claim C10. When the read of \<^verbatim>\<open>inquiry_logs\<close> fails, \<^verbatim>\<open>getUserRequests\<close> returns the empty
  list: no error reaches the caller (the result type has none), and the result is the one
  a user without any request gets from a store that answers.
\<close>

theorem getUserRequests_read_failure:
  "(read_fails e InquiryLogs \<longrightarrow> getUserRequests e db userId = [])
   \<and> (read_fails e InquiryLogs \<and> (\<forall>l \<in> set (inquiry_logs db'). l_user_id l \<noteq> userId) \<longrightarrow>
        getUserRequests e' db' userId = getUserRequests e db userId)"
  by (auto simp add: getUserRequests_def select_rows_def Let_def order_desc_def
      filter_empty_conv)

theorem getUserRequests_read_failure_witness:
  "read_fails env_down InquiryLogs
   \<and> inquiry_logs (seed_db :: db) = []
   \<and> map l_user_id (inquiry_logs logged_db) = [''usr-1'', ''usr-1'']
   \<and> getUserRequests env_down logged_db ''usr-1'' = []
   \<and> getUserRequests env_ok seed_db ''usr-1'' = getUserRequests env_down logged_db ''usr-1''"
proof -
  have h: "read_fails env_down InquiryLogs
      \<and> (\<forall>l \<in> set (inquiry_logs (seed_db :: db)). l_user_id l \<noteq> ''usr-1'')"
    by (simp add: env_down_def seed_db_def)
  have u: "map l_user_id (inquiry_logs logged_db) = [''usr-1'', ''usr-1'']"
    by (simp add: logged_db_def example_log_def)
  have n: "inquiry_logs (seed_db :: db) = []"
    by (simp add: seed_db_def)
  from getUserRequests_read_failure [where e = env_down and db' = seed_db
      and userId = "''usr-1''" and db = logged_db and e' = env_ok] h u n
  show ?thesis by blast
qed

section \<open>Requesting a price: \<^verbatim>\<open>requestPrice\<close> and \<^verbatim>\<open>request_price\<close>\<close>

lemma maybeSingle_Some:
  "data (maybeSingle (select_rows e t rows)) = Some x \<longleftrightarrow> \<not> read_fails e t \<and> rows = [x]"
  by (auto simp add: maybeSingle_def select_rows_def split: list.splits)

lemma maybeSingle_None:
  "data (maybeSingle (select_rows e t rows)) = None \<longleftrightarrow> read_fails e t \<or> length rows \<noteq> 1"
  by (auto simp add: maybeSingle_def select_rows_def split: list.splits)

lemma maybeSingle_single:
  "\<not> read_fails e t \<Longrightarrow> maybeSingle (select_rows e t [x]) = \<lparr>data = Some x, error = None\<rparr>"
  by (simp add: maybeSingle_def select_rows_def)

lemma pending_logs_member:
  "l \<in> set (pending_logs db u d p) \<Longrightarrow>
     l_user_id l = u \<and> l_device_id l = d \<and> l_project_id l = p \<and> l_status l = pending
     \<and> l \<in> set (inquiry_logs db)"
  by (simp add: pending_logs_def)

lemma requestPrice_existing:
  assumes "\<not> read_fails e Devices" "\<not> read_fails e InquiryLogs"
    and "devices_with_id db deviceId = [device]"
    and "pending_logs db userId deviceId projectId = [existingLog]"
  shows "requestPrice e db userId deviceId projectId =
     (Inr \<lparr>requestId = l_id existingLog, dto_deviceId = deviceId, dto_projectId = projectId,
           status = pending, sellPriceEUR = None, timestamp = l_created_at existingLog\<rparr>, db)"
proof -
  have "existingLog \<in> set (pending_logs db userId deviceId projectId)"
    using assms(4) by simp
  then have "l_device_id existingLog = deviceId" "l_project_id existingLog = projectId"
    "l_status existingLog = pending"
    using pending_logs_member by blast+
  then show ?thesis
    using assms by (simp add: requestPrice_def Let_def maybeSingle_single)
qed

lemma requestPrice_Inr_device:
  assumes "fst (requestPrice e db userId deviceId projectId) = Inr dto"
  shows "\<not> read_fails e Devices \<and> (\<exists>device. devices_with_id db deviceId = [device])"
proof -
  have "data (maybeSingle (select_rows e Devices (devices_with_id db deviceId))) \<noteq> None"
    using assms by (auto simp add: requestPrice_def Let_def split: if_splits option.splits)
  then show ?thesis
    using maybeSingle_Some by fastforce
qed

lemma insert_inquiry_log_cases:
  "(\<exists>err. insert_inquiry_log e db u d p c m price = (\<lparr>data = None, error = Some err\<rparr>, db))
   \<or> (\<exists>x. gen_random_uuid e \<notin> set (map l_id (inquiry_logs db))
         \<and> insert_inquiry_log e db u d p c m price =
            (\<lparr>data = Some [\<lparr>l_id = gen_random_uuid e, l_user_id = u, l_device_id = d,
                       l_project_id = p, category_name_snapshot = c,
                       model_name_snapshot = m, sell_price_eur_snapshot = x,
                       l_status = pending, admin_response_time = None,
                       l_created_at = now e, l_updated_at = now e\<rparr>], error = None\<rparr>,
             db\<lparr>inquiry_logs := inquiry_logs db @
                  [\<lparr>l_id = gen_random_uuid e, l_user_id = u, l_device_id = d,
                       l_project_id = p, category_name_snapshot = c,
                       model_name_snapshot = m, sell_price_eur_snapshot = x,
                       l_status = pending, admin_response_time = None,
                       l_created_at = now e, l_updated_at = now e\<rparr>]\<rparr>))"
  by (cases price) (simp_all add: insert_inquiry_log_def Let_def)

lemma requestPrice_no_pending:
  assumes "\<not> read_fails e Devices" and "devices_with_id db deviceId = [device]"
    and "data (maybeSingle (select_rows e InquiryLogs
            (pending_logs db userId deviceId projectId))) = None"
  shows "requestPrice e db userId deviceId projectId =
     (case data (maybeSingle (select_rows e GlobalSettingsT (active_settings db))) of
        None \<Rightarrow> (Inl (Error ''Settings not found''), db)
      | Some settings \<Rightarrow>
         (let category = data (maybeSingle (select_rows e Categories
                  (filter (\<lambda>c. c_id c = d_category_id device) (categories db))));
              priceEUR = calculatePriceInternal (toDevice device) (toGlobalSettings settings);
              ins = insert_inquiry_log e db userId deviceId projectId
                  (case category of
                     None \<Rightarrow> ''Unknown''
                   | Some c \<Rightarrow> if c_name c = [] then ''Unknown'' else c_name c)
                  (d_model_name device) priceEUR
          in case (if error (fst ins) \<noteq> None then None else data (fst ins)) of
               Some (inquiry0 # rest) \<Rightarrow>
                 (Inr \<lparr>requestId = l_id inquiry0, dto_deviceId = l_device_id inquiry0,
                       dto_projectId = l_project_id inquiry0, status = pending,
                       sellPriceEUR = None, timestamp = l_created_at inquiry0\<rparr>,
                  snd ins)
             | _ \<Rightarrow> (Inl (Error ''Failed to create inquiry log''), snd ins)))"
  using assms by (simp add: requestPrice_def maybeSingle_single)

lemma requestPrice_Inr_fresh:
  assumes ok: "fst (requestPrice e db userId deviceId projectId) = Inr dto"
    and "\<not> read_fails e InquiryLogs"
    and "pending_logs db userId deviceId projectId = []"
  shows "\<exists>row. snd (requestPrice e db userId deviceId projectId)
            = db\<lparr>inquiry_logs := inquiry_logs db @ [row]\<rparr>
          \<and> l_user_id row = userId \<and> l_device_id row = deviceId \<and> l_project_id row = projectId
          \<and> l_status row = pending \<and> l_id row = gen_random_uuid e
          \<and> l_id row \<notin> set (map l_id (inquiry_logs db))
          \<and> dto = \<lparr>requestId = l_id row, dto_deviceId = deviceId, dto_projectId = projectId,
                   status = pending, sellPriceEUR = None, timestamp = l_created_at row\<rparr>"
proof -
  from ok obtain device where dev: "\<not> read_fails e Devices" "devices_with_id db deviceId = [device]"
    using requestPrice_Inr_device by blast
  have none: "data (maybeSingle (select_rows e InquiryLogs
            (pending_logs db userId deviceId projectId))) = None"
    using assms(3) by (simp add: maybeSingle_None)
  note unf = requestPrice_no_pending [OF dev none]
  from ok unf obtain settings where
    st: "data (maybeSingle (select_rows e GlobalSettingsT (active_settings db))) = Some settings"
    by (cases "data (maybeSingle (select_rows e GlobalSettingsT (active_settings db)))") auto
  define c where "c = (case data (maybeSingle (select_rows e Categories
                  (filter (\<lambda>c. c_id c = d_category_id device) (categories db)))) of
                     None \<Rightarrow> ''Unknown''
                   | Some c \<Rightarrow> if c_name c = [] then ''Unknown'' else c_name c)"
  define price where "price = calculatePriceInternal (toDevice device) (toGlobalSettings settings)"
  define ins where "ins = insert_inquiry_log e db userId deviceId projectId c (d_model_name device) price"
  have rp: "requestPrice e db userId deviceId projectId =
      (case (if error (fst ins) \<noteq> None then None else data (fst ins)) of
               Some (inquiry0 # rest) \<Rightarrow>
                 (Inr \<lparr>requestId = l_id inquiry0, dto_deviceId = l_device_id inquiry0,
                       dto_projectId = l_project_id inquiry0, status = pending,
                       sellPriceEUR = None, timestamp = l_created_at inquiry0\<rparr>,
                  snd ins)
             | _ \<Rightarrow> (Inl (Error ''Failed to create inquiry log''), snd ins))"
    unfolding unf st c_def price_def ins_def by (simp add: Let_def)
  from insert_inquiry_log_cases [of e db userId deviceId projectId c "d_model_name device" price]
  show ?thesis
  proof
    assume "\<exists>err. insert_inquiry_log e db userId deviceId projectId c (d_model_name device) price
        = (\<lparr>data = None, error = Some err\<rparr>, db)"
    then have "fst (requestPrice e db userId deviceId projectId)
        = Inl (Error ''Failed to create inquiry log'')"
      unfolding rp ins_def by auto
    with ok show ?thesis by simp
  next
    assume "\<exists>x. gen_random_uuid e \<notin> set (map l_id (inquiry_logs db))
         \<and> insert_inquiry_log e db userId deviceId projectId c (d_model_name device) price =
            (\<lparr>data = Some [\<lparr>l_id = gen_random_uuid e, l_user_id = userId, l_device_id = deviceId,
                       l_project_id = projectId, category_name_snapshot = c,
                       model_name_snapshot = d_model_name device, sell_price_eur_snapshot = x,
                       l_status = pending, admin_response_time = None,
                       l_created_at = now e, l_updated_at = now e\<rparr>], error = None\<rparr>,
             db\<lparr>inquiry_logs := inquiry_logs db @
                  [\<lparr>l_id = gen_random_uuid e, l_user_id = userId, l_device_id = deviceId,
                       l_project_id = projectId, category_name_snapshot = c,
                       model_name_snapshot = d_model_name device, sell_price_eur_snapshot = x,
                       l_status = pending, admin_response_time = None,
                       l_created_at = now e, l_updated_at = now e\<rparr>]\<rparr>)"
    then obtain x where fresh: "gen_random_uuid e \<notin> set (map l_id (inquiry_logs db))"
      and ins_eq: "ins =
            (\<lparr>data = Some [\<lparr>l_id = gen_random_uuid e, l_user_id = userId, l_device_id = deviceId,
                       l_project_id = projectId, category_name_snapshot = c,
                       model_name_snapshot = d_model_name device, sell_price_eur_snapshot = x,
                       l_status = pending, admin_response_time = None,
                       l_created_at = now e, l_updated_at = now e\<rparr>], error = None\<rparr>,
             db\<lparr>inquiry_logs := inquiry_logs db @
                  [\<lparr>l_id = gen_random_uuid e, l_user_id = userId, l_device_id = deviceId,
                       l_project_id = projectId, category_name_snapshot = c,
                       model_name_snapshot = d_model_name device, sell_price_eur_snapshot = x,
                       l_status = pending, admin_response_time = None,
                       l_created_at = now e, l_updated_at = now e\<rparr>]\<rparr>)"
      unfolding ins_def by blast
    have "requestPrice e db userId deviceId projectId =
        (Inr \<lparr>requestId = gen_random_uuid e, dto_deviceId = deviceId,
              dto_projectId = projectId, status = pending,
              sellPriceEUR = None, timestamp = now e\<rparr>, snd ins)"
      unfolding rp by (simp add: ins_eq)
    with ok fresh show ?thesis
      apply (simp add: ins_eq)
      apply (rule exI, intro conjI, rule refl)
      apply auto
      done
  qed
qed


lemma requestPrice_twice:
  assumes le1: "length (pending_logs db userId deviceId projectId) \<le> 1"
    and r1: "\<not> read_fails e InquiryLogs"
    and r2: "\<not> read_fails e' Devices" "\<not> read_fails e' InquiryLogs"
    and ok: "fst (requestPrice e db userId deviceId projectId) = Inr dto"
  shows "requestPrice e' (snd (requestPrice e db userId deviceId projectId))
            userId deviceId projectId
          = (Inr dto, snd (requestPrice e db userId deviceId projectId))
       \<and> length (pending_logs (snd (requestPrice e db userId deviceId projectId))
            userId deviceId projectId) = 1"
proof -
  from ok obtain device where dev: "\<not> read_fails e Devices" "devices_with_id db deviceId = [device]"
    using requestPrice_Inr_device by blast
  from le1 consider (one) l where "pending_logs db userId deviceId projectId = [l]"
    | (none) "pending_logs db userId deviceId projectId = []"
    by (cases "pending_logs db userId deviceId projectId") (auto simp add: length_Suc_conv)
  then show ?thesis
  proof cases
    case one
    let ?dto = "\<lparr>requestId = l_id l, dto_deviceId = deviceId, dto_projectId = projectId,
        status = pending, sellPriceEUR = None, timestamp = l_created_at l\<rparr>"
    have first: "requestPrice e db userId deviceId projectId = (Inr ?dto, db)"
      by (rule requestPrice_existing [OF dev(1) r1 dev(2) one])
    with ok have dto: "dto = ?dto" by simp
    have "requestPrice e' db userId deviceId projectId = (Inr ?dto, db)"
      by (rule requestPrice_existing [OF r2(1) r2(2) dev(2) one])
    with first one dto show ?thesis by simp
  next
    case none
    from requestPrice_Inr_fresh [OF ok r1 none] obtain row where
      db': "snd (requestPrice e db userId deviceId projectId)
              = db\<lparr>inquiry_logs := inquiry_logs db @ [row]\<rparr>"
      and row: "l_user_id row = userId" "l_device_id row = deviceId" "l_project_id row = projectId"
        "l_status row = pending"
      and dto: "dto = \<lparr>requestId = l_id row, dto_deviceId = deviceId, dto_projectId = projectId,
                   status = pending, sellPriceEUR = None, timestamp = l_created_at row\<rparr>"
      by blast
    let ?db' = "db\<lparr>inquiry_logs := inquiry_logs db @ [row]\<rparr>"
    have p: "pending_logs ?db' userId deviceId projectId = [row]"
      using none row by (simp add: pending_logs_def)
    have d: "devices_with_id ?db' deviceId = [device]"
      using dev(2) by (simp add: devices_with_id_def)
    from requestPrice_existing [OF r2(1) r2(2) d p] dto db' p show ?thesis
      by simp
  qed
qed

lemma request_price_inserts:
  assumes "fst (request_price e rdb p_device_id p_project_id) = Inr j"
  shows "\<exists>row. inquiry_logs (snd (request_price e rdb p_device_id p_project_id))
             = inquiry_logs rdb @ [row]
          \<and> r_id row = j_requestId j \<and> r_id row = gen_random_uuid e
          \<and> r_id row \<notin> set (map r_id (inquiry_logs rdb))
          \<and> r_user_id row = auth_uid e \<and> r_device_id row = p_device_id
          \<and> r_project_id row = p_project_id \<and> r_status row = pending"
proof (cases "calculate_price_logic rdb p_device_id")
  case (Inl ex)
  with assms show ?thesis
    by (simp add: request_price_def Let_def)
next
  case (Inr row)
  with assms show ?thesis
    by (auto simp add: request_price_def Let_def split: if_splits)
qed

lemma outdoor_price:
  "calculatePriceInternal (toDevice seed_outdoor) (toGlobalSettings seed_settings) = Fin 16056"
  by (simp add: calculatePriceInternal_def calculateBreakdown_def toDevice_def
      toGlobalSettings_def Let_def seed_outdoor_def seed_settings_def)

lemma request_price_seed:
  "request_price env_ok seed_db ''dev-479'' ''prj-1'' =
      (Inr \<lparr>j_requestId = ''log-1'', j_status = pending, j_timestamp = 1000\<rparr>,
       seed_db\<lparr>inquiry_logs :=
         [\<lparr>r_id = ''log-1'', r_user_id = ''usr-1'', r_device_id = ''dev-479'',
           r_project_id = ''prj-1'', r_project_name_snapshot = Some ''Tower'',
           r_category_name_snapshot = Some ''VRF Systems'',
           r_model_name_snapshot = Some ''VRF-Outdoor-20HP'',
           r_sell_price_eur_snapshot = 16056, r_status = pending,
           r_admin_response_time = None, r_created_at = 1000\<rparr>]\<rparr>)"
proof -
  have sql_price: "calculate_price_logic_steps seed_outdoor seed_settings = Inr
      \<lparr>sell_price = 16056,
       breakdown = \<lparr>j_P = 15000, j_L = 2.5, j_W = 400, j_D = 0.38, j_F = 1000, j_WR = 0.05,
         j_PF = 0.65, j_companyPrice = 5700, j_shipment = 2500, j_custom = 2800 / 3,
         j_warranty = 285, j_subtotal = 28255 / 3, j_sellPrice = 16056\<rparr>\<rparr>"
    by (simp add: calculate_price_logic_steps_def numeric_div_def Let_def
        seed_outdoor_def seed_settings_def)
  have logic: "calculate_price_logic (seed_db :: rpc_db) ''dev-479''
        = calculate_price_logic_steps seed_outdoor seed_settings"
    by (simp add: calculate_price_logic_def latest_active_settings_def active_settings_def
        order_desc_def seed_db_def seed_outdoor_def seed_cassette_def seed_settings_def)
  show ?thesis
    by (simp add: request_price_def Let_def logic sql_price)
      (simp add: seed_db_def env_ok_def seed_outdoor_def seed_cassette_def)
qed

text \<open>
  Claim C3: when a pending log exists for the (user, device, project), \<^verbatim>\<open>requestPrice\<close>
  returns it and creates no row, and two requests for one triple yield the same id and no
  duplicate row. The code breaks this rule in a store that holds two pending logs for the
  triple (the pending logs \<^verbatim>\<open>log-0\<close> and \<^verbatim>\<open>log-9\<close>): \<^verbatim>\<open>maybeSingle\<close> then yields no row, its
  error is dropped, and a third log \<^verbatim>\<open>log-1\<close> is inserted and returned. The SQL function
  \<^verbatim>\<open>request_price\<close> never looks for a pending log: two calls for the same device and
  project return the ids \<^verbatim>\<open>log-1\<close> and \<^verbatim>\<open>log-2\<close> and leave two pending rows.
\<close>

theorem duplicate_request_inserts:
  "map l_id (pending_logs duplicate_db ''usr-1'' ''dev-479'' ''prj-1'') = [''log-0'', ''log-9'']
   \<and> map_sum id requestId (fst (requestPrice env_ok duplicate_db ''usr-1'' ''dev-479'' ''prj-1''))
      = Inr ''log-1''
   \<and> map l_id (inquiry_logs (snd (requestPrice env_ok duplicate_db ''usr-1'' ''dev-479'' ''prj-1'')))
      = [''log-0'', ''log-9'', ''log-1'']
   \<and> map_sum id j_requestId (fst (request_price env_ok seed_db ''dev-479'' ''prj-1''))
      = Inr ''log-1''
   \<and> map_sum id j_requestId
        (fst (request_price env_later (snd (request_price env_ok seed_db ''dev-479'' ''prj-1''))
           ''dev-479'' ''prj-1''))
      = Inr ''log-2''
   \<and> map r_id (inquiry_logs
          (snd (request_price env_later (snd (request_price env_ok seed_db ''dev-479'' ''prj-1''))
             ''dev-479'' ''prj-1'')))
      = [''log-1'', ''log-2'']
   \<and> map r_status (inquiry_logs
          (snd (request_price env_later (snd (request_price env_ok seed_db ''dev-479'' ''prj-1''))
             ''dev-479'' ''prj-1'')))
      = [pending, pending]"
proof -
  have rd: "\<not> read_fails env_ok t" "\<not> write_fails env_ok t" "gen_random_uuid env_ok = ''log-1''" for t
    by (simp_all add: env_ok_def)
  have dev: "devices_with_id duplicate_db ''dev-479'' = [seed_outdoor]"
    by (simp add: devices_with_id_def duplicate_db_def seed_db_def seed_outdoor_def seed_cassette_def)
  have act: "active_settings duplicate_db = [seed_settings]"
    by (simp add: active_settings_def duplicate_db_def seed_db_def seed_settings_def)
  have pend: "map l_id (pending_logs duplicate_db ''usr-1'' ''dev-479'' ''prj-1'') = [''log-0'', ''log-9'']"
    by (simp add: pending_logs_def duplicate_db_def example_log_def)
  from pend have "length (pending_logs duplicate_db ''usr-1'' ''dev-479'' ''prj-1'') = 2"
    using length_map [of l_id "pending_logs duplicate_db ''usr-1'' ''dev-479'' ''prj-1''"]
    by simp
  then have none: "data (maybeSingle (select_rows env_ok InquiryLogs
            (pending_logs duplicate_db ''usr-1'' ''dev-479'' ''prj-1''))) = None"
    by (simp add: maybeSingle_None)
  have keys: "map l_id (inquiry_logs duplicate_db) = [''log-0'', ''log-9'']"
    "map d_id (devices duplicate_db) = [''dev-479'', ''dev-480'']"
    "map p_id (projects duplicate_db) = [''prj-1'']"
    by (simp_all add: duplicate_db_def example_log_def seed_db_def seed_outdoor_def seed_cassette_def)
  have ts: "map_sum id requestId (fst (requestPrice env_ok duplicate_db ''usr-1'' ''dev-479'' ''prj-1''))
      = Inr ''log-1''"
    "map l_id (inquiry_logs (snd (requestPrice env_ok duplicate_db ''usr-1'' ''dev-479'' ''prj-1'')))
      = [''log-0'', ''log-9'', ''log-1'']"
    unfolding requestPrice_no_pending [OF rd(1) dev none]
    by (simp_all add: act maybeSingle_single rd outdoor_price Let_def insert_inquiry_log_def keys)
  have sql_price: "calculate_price_logic_steps seed_outdoor seed_settings = Inr
      \<lparr>sell_price = 16056,
       breakdown = \<lparr>j_P = 15000, j_L = 2.5, j_W = 400, j_D = 0.38, j_F = 1000, j_WR = 0.05,
         j_PF = 0.65, j_companyPrice = 5700, j_shipment = 2500, j_custom = 2800 / 3,
         j_warranty = 285, j_subtotal = 28255 / 3, j_sellPrice = 16056\<rparr>\<rparr>"
    by (simp add: calculate_price_logic_steps_def numeric_div_def Let_def
        seed_outdoor_def seed_settings_def)
  have logic: "calculate_price_logic (db :: rpc_db) ''dev-479''
        = calculate_price_logic_steps seed_outdoor seed_settings"
    if "devices db = devices (seed_db :: rpc_db)"
      "global_settings db = global_settings (seed_db :: rpc_db)" for db
    using that
    by (simp add: calculate_price_logic_def latest_active_settings_def active_settings_def
        order_desc_def seed_db_def seed_outdoor_def seed_cassette_def seed_settings_def)
  have second: "map_sum id j_requestId
        (fst (request_price env_later (snd (request_price env_ok seed_db ''dev-479'' ''prj-1''))
           ''dev-479'' ''prj-1'')) = Inr ''log-2''"
    "map r_id (inquiry_logs
          (snd (request_price env_later (snd (request_price env_ok seed_db ''dev-479'' ''prj-1''))
             ''dev-479'' ''prj-1'')))
      = [''log-1'', ''log-2'']"
    "map r_status (inquiry_logs
          (snd (request_price env_later (snd (request_price env_ok seed_db ''dev-479'' ''prj-1''))
             ''dev-479'' ''prj-1'')))
      = [pending, pending]"
    unfolding request_price_seed
    by (simp_all add: request_price_def Let_def logic sql_price)
      (simp_all add: seed_db_def env_later_def env_ok_def seed_outdoor_def seed_cassette_def)
  from pend ts request_price_seed second show ?thesis by simp
qed

text \<open>
  Where the idempotency rule does hold. In the TypeScript backend, if exactly one pending
  log exists for the (user, device, project) and the device row is found, \<^verbatim>\<open>requestPrice\<close>
  returns that log (its id, pending, no price) and the store is unchanged. Two successive
  requests for one triple, the first made where at most one pending log for it exists and
  answered with a record, return the same record, the second adds no row, and exactly one
  pending log for the triple exists afterwards. The SQL function \<^verbatim>\<open>request_price\<close> makes no
  such check: every successful call appends a new pending row under a new id.
\<close>

theorem requestPrice_idempotent:
  "(\<not> read_fails e Devices \<and> \<not> read_fails e InquiryLogs
      \<and> devices_with_id db deviceId = [device]
      \<and> pending_logs db userId deviceId projectId = [existingLog] \<longrightarrow>
     requestPrice e db userId deviceId projectId =
       (Inr \<lparr>requestId = l_id existingLog, dto_deviceId = deviceId, dto_projectId = projectId,
             status = pending, sellPriceEUR = None, timestamp = l_created_at existingLog\<rparr>, db))
   \<and> (length (pending_logs db userId deviceId projectId) \<le> 1
      \<and> \<not> read_fails e InquiryLogs \<and> \<not> read_fails e' Devices \<and> \<not> read_fails e' InquiryLogs
      \<and> fst (requestPrice e db userId deviceId projectId) = Inr dto \<longrightarrow>
     requestPrice e' (snd (requestPrice e db userId deviceId projectId))
         userId deviceId projectId
       = (Inr dto, snd (requestPrice e db userId deviceId projectId))
     \<and> length (pending_logs (snd (requestPrice e db userId deviceId projectId))
         userId deviceId projectId) = 1)
   \<and> (fst (request_price e rdb p_device_id p_project_id) = Inr j \<longrightarrow>
     (\<exists>row. inquiry_logs (snd (request_price e rdb p_device_id p_project_id))
             = inquiry_logs rdb @ [row]
          \<and> r_id row = j_requestId j
          \<and> r_id row \<notin> set (map r_id (inquiry_logs rdb))
          \<and> r_user_id row = auth_uid e \<and> r_device_id row = p_device_id
          \<and> r_project_id row = p_project_id \<and> r_status row = pending))"
  using requestPrice_existing [of e db deviceId device userId projectId existingLog]
    requestPrice_twice [of db userId deviceId projectId e e' dto]
    request_price_inserts [of e rdb p_device_id p_project_id j]
  by blast

theorem requestPrice_idempotent_witness:
  "\<not> read_fails env_later Devices \<and> \<not> read_fails env_later InquiryLogs
   \<and> \<not> read_fails env_ok InquiryLogs
   \<and> devices_with_id logged_db ''dev-479'' = [seed_outdoor]
   \<and> pending_logs logged_db ''usr-1'' ''dev-479'' ''prj-1'' = [example_log]
   \<and> requestPrice env_later logged_db ''usr-1'' ''dev-479'' ''prj-1'' =
      (Inr \<lparr>requestId = ''log-0'', dto_deviceId = ''dev-479'', dto_projectId = ''prj-1'',
            status = pending, sellPriceEUR = None, timestamp = 500\<rparr>, logged_db)
   \<and> length (pending_logs seed_db ''usr-1'' ''dev-479'' ''prj-1'') \<le> 1
   \<and> fst (requestPrice env_ok seed_db ''usr-1'' ''dev-479'' ''prj-1'') =
      Inr \<lparr>requestId = ''log-1'', dto_deviceId = ''dev-479'', dto_projectId = ''prj-1'',
           status = pending, sellPriceEUR = None, timestamp = 1000\<rparr>
   \<and> requestPrice env_later (snd (requestPrice env_ok seed_db ''usr-1'' ''dev-479'' ''prj-1''))
        ''usr-1'' ''dev-479'' ''prj-1'' =
      (Inr \<lparr>requestId = ''log-1'', dto_deviceId = ''dev-479'', dto_projectId = ''prj-1'',
            status = pending, sellPriceEUR = None, timestamp = 1000\<rparr>,
       snd (requestPrice env_ok seed_db ''usr-1'' ''dev-479'' ''prj-1''))
   \<and> length (pending_logs (snd (requestPrice env_ok seed_db ''usr-1'' ''dev-479'' ''prj-1''))
        ''usr-1'' ''dev-479'' ''prj-1'') = 1
   \<and> fst (request_price env_ok seed_db ''dev-479'' ''prj-1'') =
      Inr \<lparr>j_requestId = ''log-1'', j_status = pending, j_timestamp = 1000\<rparr>
   \<and> map r_id (inquiry_logs (snd (request_price env_ok seed_db ''dev-479'' ''prj-1'')))
      = [''log-1'']"
proof -
  let ?dto = "\<lparr>requestId = ''log-1'', dto_deviceId = ''dev-479'', dto_projectId = ''prj-1'',
           status = pending, sellPriceEUR = None, timestamp = 1000\<rparr>"
  have rd: "\<not> read_fails env_ok t" "\<not> write_fails env_ok t" "gen_random_uuid env_ok = ''log-1''"
    "now env_ok = 1000" "\<not> read_fails env_later t" for t
    by (simp_all add: env_ok_def env_later_def)
  have dev: "devices_with_id logged_db ''dev-479'' = [seed_outdoor]"
    "devices_with_id (seed_db :: db) ''dev-479'' = [seed_outdoor]"
    by (simp_all add: devices_with_id_def logged_db_def seed_db_def seed_outdoor_def seed_cassette_def)
  have pend: "pending_logs logged_db ''usr-1'' ''dev-479'' ''prj-1'' = [example_log]"
    "pending_logs seed_db ''usr-1'' ''dev-479'' ''prj-1'' = []"
    by (simp_all add: pending_logs_def logged_db_def example_log_def seed_db_def)
  have ex: "l_id example_log = ''log-0''" "l_created_at example_log = 500"
    by (simp_all add: example_log_def)
  have act: "active_settings (seed_db :: db) = [seed_settings]"
    by (simp add: active_settings_def seed_db_def seed_settings_def)
  have keys: "inquiry_logs (seed_db :: db) = []"
    "map d_id (devices (seed_db :: db)) = [''dev-479'', ''dev-480'']"
    "map p_id (projects (seed_db :: db)) = [''prj-1'']"
    by (simp_all add: seed_db_def seed_outdoor_def seed_cassette_def)
  have none: "data (maybeSingle (select_rows env_ok InquiryLogs
            (pending_logs seed_db ''usr-1'' ''dev-479'' ''prj-1''))) = None"
    by (simp add: maybeSingle_None pend)
  have first: "fst (requestPrice env_ok seed_db ''usr-1'' ''dev-479'' ''prj-1'') = Inr ?dto"
    unfolding requestPrice_no_pending [OF rd(1) dev(2) none]
    by (simp add: act maybeSingle_single rd outdoor_price Let_def insert_inquiry_log_def keys)
  from requestPrice_idempotent [where e = env_later and db = logged_db and deviceId = "''dev-479''"
      and device = seed_outdoor and userId = "''usr-1''" and projectId = "''prj-1''"
      and existingLog = example_log] rd(5) dev(1) pend(1) ex
  have a: "requestPrice env_later logged_db ''usr-1'' ''dev-479'' ''prj-1'' =
      (Inr \<lparr>requestId = ''log-0'', dto_deviceId = ''dev-479'', dto_projectId = ''prj-1'',
            status = pending, sellPriceEUR = None, timestamp = 500\<rparr>, logged_db)"
    by simp
  from requestPrice_idempotent [where e = env_ok and db = seed_db and deviceId = "''dev-479''"
      and userId = "''usr-1''" and projectId = "''prj-1''" and e' = env_later and dto = "?dto"]
    rd(1) rd(5) pend(2) first
  have b: "requestPrice env_later (snd (requestPrice env_ok seed_db ''usr-1'' ''dev-479'' ''prj-1''))
        ''usr-1'' ''dev-479'' ''prj-1'' =
      (Inr ?dto, snd (requestPrice env_ok seed_db ''usr-1'' ''dev-479'' ''prj-1''))"
    "length (pending_logs (snd (requestPrice env_ok seed_db ''usr-1'' ''dev-479'' ''prj-1''))
        ''usr-1'' ''dev-479'' ''prj-1'') = 1"
    by simp_all
  have sql: "fst (request_price env_ok seed_db ''dev-479'' ''prj-1'') =
      Inr \<lparr>j_requestId = ''log-1'', j_status = pending, j_timestamp = 1000\<rparr>"
    by (simp add: request_price_seed)
  from requestPrice_idempotent [where e = env_ok and rdb = seed_db
      and p_device_id = "''dev-479''" and p_project_id = "''prj-1''"
      and j = "\<lparr>j_requestId = ''log-1'', j_status = pending, j_timestamp = 1000\<rparr>"] sql
  obtain row where "inquiry_logs (snd (request_price env_ok seed_db ''dev-479'' ''prj-1''))
        = inquiry_logs (seed_db :: rpc_db) @ [row]" "r_id row = ''log-1''"
    by fastforce
  then have c: "map r_id (inquiry_logs (snd (request_price env_ok seed_db ''dev-479'' ''prj-1'')))
      = [''log-1'']"
    by (simp add: seed_db_def)
  from rd(1) rd(5) dev(1) pend a first b sql c show ?thesis
    by simp
qed

section \<open>The active parameter set\<close>

lemma latest_active_none:
  "active_settings db = [] \<Longrightarrow> latest_active_settings db = None"
  by (simp add: latest_active_settings_def order_desc_def)

lemma latest_active_some:
  assumes "active_settings db \<noteq> []"
  shows "\<exists>s \<in> set (active_settings db). latest_active_settings db = Some s
           \<and> (\<forall>s' \<in> set (active_settings db). s_created_at s' \<le> s_created_at s)"
proof -
  let ?xs = "order_desc s_created_at (active_settings db)"
  have m: "mset ?xs = mset (active_settings db)"
    by (rule mset_order_desc)
  then have st: "set ?xs = set (active_settings db)"
    by (rule mset_eq_setD)
  with assms have "?xs \<noteq> []"
    by auto
  then obtain h t where ht: "?xs = h # t"
    by (cases ?xs) auto
  have "sorted_wrt (\<lambda>a b. s_created_at b \<le> s_created_at a) (h # t)"
    using order_desc_sorted [of s_created_at "active_settings db"] ht by simp
  then have "\<forall>b \<in> set (h # t). s_created_at b \<le> s_created_at h"
    by auto
  with st ht have "\<forall>s' \<in> set (active_settings db). s_created_at s' \<le> s_created_at h"
    by simp
  moreover have "h \<in> set (active_settings db)"
    using st ht by auto
  moreover have "latest_active_settings db = Some h"
    by (simp add: latest_active_settings_def ht)
  ultimately show ?thesis by blast
qed

lemma requestPrice_settings_missing:
  assumes "\<not> read_fails e Devices" and "devices_with_id db deviceId = [device]"
    and "length (pending_logs db userId deviceId projectId) \<noteq> 1"
    and "length (active_settings db) \<noteq> 1"
  shows "requestPrice e db userId deviceId projectId = (Inl (Error ''Settings not found''), db)"
proof -
  have none: "data (maybeSingle (select_rows e InquiryLogs
            (pending_logs db userId deviceId projectId))) = None"
    using assms(3) by (simp add: maybeSingle_None)
  have "data (maybeSingle (select_rows e GlobalSettingsT (active_settings db))) = None"
    using assms(4) by (simp add: maybeSingle_None)
  then show ?thesis
    unfolding requestPrice_no_pending [OF assms(1,2) none] by simp
qed

lemma getDeviceBreakdown_settings_missing:
  assumes "length (active_settings db) \<noteq> 1"
  shows "getDeviceBreakdown e db deviceId = Inl (Error ''Device or settings not found'')"
proof -
  have "data (maybeSingle (select_rows e GlobalSettingsT (active_settings db))) = None"
    using assms by (simp add: maybeSingle_None)
  then show ?thesis
    by (simp add: getDeviceBreakdown_def Let_def split: option.splits)
qed

text \<open>
  Claim C5, as the specification states it: retrieving the active parameter set fails
  whenever zero or several rows are active, and never picks one of several. The SQL
  function \<^verbatim>\<open>calculate_price_logic\<close> does pick one: with two active rows it computes the
  price from the one created last (profit factor 0.5, price 20872).
\<close>

theorem latest_of_several_is_used:
  "map s_id (active_settings (two_active_db :: rpc_db)) = [''set-999'', ''set-2'']
   \<and> map_sum id sell_price (calculate_price_logic (two_active_db :: rpc_db) ''dev-479'')
      = Inr 20872"
proof -
  let ?s2 = "seed_settings\<lparr>s_id := ''set-2'', profit_factor := 0.5, s_created_at := 200\<rparr>"
  have act: "active_settings (two_active_db :: rpc_db) = [seed_settings, ?s2]"
    by (simp add: active_settings_def two_active_db_def seed_db_def seed_settings_def)
  have latest: "latest_active_settings (two_active_db :: rpc_db) = Some ?s2"
    by (simp add: latest_active_settings_def act order_desc_def seed_settings_def)
  have dev: "find (\<lambda>d. d_id d = ''dev-479'') (devices (two_active_db :: rpc_db)) = Some seed_outdoor"
    by (simp add: two_active_db_def seed_db_def seed_outdoor_def)
  have "map_sum id sell_price (calculate_price_logic_steps seed_outdoor ?s2) = Inr 20872"
    by (simp add: calculate_price_logic_steps_def numeric_div_def Let_def
        seed_outdoor_def seed_settings_def)
  with latest dev act show ?thesis
    by (simp add: calculate_price_logic_def seed_settings_def)
qed

text \<open>
  Claim C5, amended. In the TypeScript backend the retrieval fails whenever the number of
  active rows is not exactly one, be it zero or several: \<^verbatim>\<open>requestPrice\<close> (once past the
  device and the pending-log lookup) throws "Settings not found" and changes nothing,
  \<^verbatim>\<open>getDeviceBreakdown\<close> throws "Device or settings not found". The SQL function
  \<^verbatim>\<open>calculate_price_logic\<close> fails ("No active settings found") only when no row is active;
  when several are active it uses one with the latest creation time.
\<close>

theorem active_settings_retrieval:
  "(\<not> read_fails e Devices \<and> devices_with_id db deviceId = [device]
      \<and> length (pending_logs db userId deviceId projectId) \<noteq> 1
      \<and> length (active_settings db) \<noteq> 1 \<longrightarrow>
     requestPrice e db userId deviceId projectId = (Inl (Error ''Settings not found''), db))
   \<and> (length (active_settings db) \<noteq> 1 \<longrightarrow>
     getDeviceBreakdown e db deviceId = Inl (Error ''Device or settings not found''))
   \<and> (find (\<lambda>r. d_id r = p_device_id) (devices rdb) = Some d \<and> active_settings rdb = [] \<longrightarrow>
     calculate_price_logic rdb p_device_id = Inl (Raise ''No active settings found''))
   \<and> (find (\<lambda>r. d_id r = p_device_id) (devices rdb) = Some d \<and> active_settings rdb \<noteq> [] \<longrightarrow>
     (\<exists>s \<in> set (active_settings rdb).
        (\<forall>s' \<in> set (active_settings rdb). s_created_at s' \<le> s_created_at s)
        \<and> calculate_price_logic rdb p_device_id = calculate_price_logic_steps d s))"
proof (intro conjI impI)
  assume "\<not> read_fails e Devices \<and> devices_with_id db deviceId = [device]
      \<and> length (pending_logs db userId deviceId projectId) \<noteq> 1
      \<and> length (active_settings db) \<noteq> 1"
  then show "requestPrice e db userId deviceId projectId = (Inl (Error ''Settings not found''), db)"
    using requestPrice_settings_missing by blast
next
  assume "length (active_settings db) \<noteq> 1"
  then show "getDeviceBreakdown e db deviceId = Inl (Error ''Device or settings not found'')"
    by (rule getDeviceBreakdown_settings_missing)
next
  assume "find (\<lambda>r. d_id r = p_device_id) (devices rdb) = Some d \<and> active_settings rdb = []"
  then show "calculate_price_logic rdb p_device_id = Inl (Raise ''No active settings found'')"
    by (simp add: calculate_price_logic_def latest_active_none)
next
  assume a: "find (\<lambda>r. d_id r = p_device_id) (devices rdb) = Some d \<and> active_settings rdb \<noteq> []"
  then obtain s where "s \<in> set (active_settings rdb)" "latest_active_settings rdb = Some s"
    "\<forall>s' \<in> set (active_settings rdb). s_created_at s' \<le> s_created_at s"
    using latest_active_some by blast
  with a show "\<exists>s \<in> set (active_settings rdb).
        (\<forall>s' \<in> set (active_settings rdb). s_created_at s' \<le> s_created_at s)
        \<and> calculate_price_logic rdb p_device_id = calculate_price_logic_steps d s"
    by (auto simp add: calculate_price_logic_def)
qed

theorem active_settings_retrieval_witness:
  "\<not> read_fails env_ok Devices
   \<and> devices_with_id (two_active_db :: db) ''dev-479'' = [seed_outdoor]
   \<and> length (pending_logs two_active_db ''usr-1'' ''dev-479'' ''prj-1'') = 0
   \<and> length (active_settings (two_active_db :: db)) = 2
   \<and> requestPrice env_ok two_active_db ''usr-1'' ''dev-479'' ''prj-1''
      = (Inl (Error ''Settings not found''), two_active_db)
   \<and> getDeviceBreakdown env_ok two_active_db ''dev-479''
      = Inl (Error ''Device or settings not found'')
   \<and> find (\<lambda>r. d_id r = ''dev-479'') (devices (seed_db :: rpc_db)) = Some seed_outdoor
   \<and> active_settings (seed_db\<lparr>global_settings := []\<rparr> :: rpc_db) = []
   \<and> calculate_price_logic (seed_db\<lparr>global_settings := []\<rparr> :: rpc_db) ''dev-479''
      = Inl (Raise ''No active settings found'')
   \<and> calculate_price_logic (two_active_db :: rpc_db) ''dev-479''
      = calculate_price_logic_steps seed_outdoor
          (seed_settings\<lparr>s_id := ''set-2'', profit_factor := 0.5, s_created_at := 200\<rparr>)"
proof -
  let ?s2 = "seed_settings\<lparr>s_id := ''set-2'', profit_factor := 0.5, s_created_at := 200\<rparr>"
  let ?none = "seed_db\<lparr>global_settings := []\<rparr> :: rpc_db"
  have rd: "\<not> read_fails env_ok Devices"
    by (simp add: env_ok_def)
  have dev: "devices_with_id (two_active_db :: db) ''dev-479'' = [seed_outdoor]"
    by (simp add: devices_with_id_def two_active_db_def seed_db_def seed_outdoor_def
        seed_cassette_def)
  have pend: "length (pending_logs two_active_db ''usr-1'' ''dev-479'' ''prj-1'') = 0"
    by (simp add: pending_logs_def two_active_db_def seed_db_def)
  have act: "active_settings (two_active_db :: 'log database) = [seed_settings, ?s2]"
    by (simp add: active_settings_def two_active_db_def seed_db_def seed_settings_def)
  have act0: "active_settings ?none = []"
    by (simp add: active_settings_def)
  have len: "length (pending_logs two_active_db ''usr-1'' ''dev-479'' ''prj-1'') \<noteq> 1"
    "length (active_settings (two_active_db :: db)) \<noteq> 1"
    by (simp_all add: pend act)
  have ne: "active_settings (two_active_db :: rpc_db) \<noteq> []"
    by (simp add: act)
  have fnd: "find (\<lambda>r. d_id r = ''dev-479'') (devices (seed_db :: rpc_db)) = Some seed_outdoor"
    "find (\<lambda>r. d_id r = ''dev-479'') (devices ?none) = Some seed_outdoor"
    "find (\<lambda>r. d_id r = ''dev-479'') (devices (two_active_db :: rpc_db)) = Some seed_outdoor"
    by (simp_all add: two_active_db_def seed_db_def seed_outdoor_def)
  from active_settings_retrieval [where e = env_ok and db = two_active_db
      and deviceId = "''dev-479''" and device = seed_outdoor and userId = "''usr-1''"
      and projectId = "''prj-1''"] rd dev len
  have a: "requestPrice env_ok two_active_db ''usr-1'' ''dev-479'' ''prj-1''
      = (Inl (Error ''Settings not found''), two_active_db)"
    "getDeviceBreakdown env_ok two_active_db ''dev-479''
      = Inl (Error ''Device or settings not found'')"
    by blast+
  from active_settings_retrieval [where rdb = "?none" and p_device_id = "''dev-479''"
      and d = seed_outdoor] fnd(2) act0
  have b: "calculate_price_logic ?none ''dev-479'' = Inl (Raise ''No active settings found'')"
    by blast
  from active_settings_retrieval [where rdb = "two_active_db :: rpc_db"
      and p_device_id = "''dev-479''" and d = seed_outdoor] fnd(3) ne
  obtain s where s0: "s \<in> set (active_settings (two_active_db :: rpc_db))"
    "\<forall>s' \<in> set (active_settings (two_active_db :: rpc_db)). s_created_at s' \<le> s_created_at s"
    "calculate_price_logic (two_active_db :: rpc_db) ''dev-479''
      = calculate_price_logic_steps seed_outdoor s"
    by blast
  then have s: "s = seed_settings \<or> s = ?s2"
    "s_created_at seed_settings \<le> s_created_at s" "s_created_at ?s2 \<le> s_created_at s"
    "calculate_price_logic (two_active_db :: rpc_db) ''dev-479''
      = calculate_price_logic_steps seed_outdoor s"
    by (simp_all add: act)
  from s(1,3) have "s = ?s2"
    by (auto simp add: seed_settings_def)
  with s(4) have c: "calculate_price_logic (two_active_db :: rpc_db) ''dev-479''
      = calculate_price_logic_steps seed_outdoor ?s2"
    by simp
  have two: "length (active_settings (two_active_db :: db)) = 2"
    by (simp add: act)
  from rd dev pend two a fnd(1) act0 b c show ?thesis
    by simp
qed

end
